theory Spec2Isabelle
  imports Complex_Main "HOL-Library.AList" "HOL-Library.Multiset"
begin

section \<open>Budget engine of wealth-pulse-api\<close>

text \<open>
  A shallow embedding of \<^verbatim>\<open>src/services/fx.service.ts\<close> and
  \<^verbatim>\<open>src/services/budget.service.ts\<close>, with the types of
  \<^verbatim>\<open>src/models/budget.models.ts\<close>.

  Conventions of the embedding.
  \<^item> A JavaScript \<^verbatim>\<open>number\<close> is a \<^typ>\<open>real\<close>: arithmetic is exact. The rounding of
    IEEE doubles, \<^verbatim>\<open>NaN\<close> and the infinities are not part of the model. Two
    expressions that are equal here can differ in the source by a rounding; the statement
    about the savings floor is therefore about the very expression the source computes,
    and is shown for any product and quotient.
  \<^item> A \<^verbatim>\<open>Date\<close> is its \<^verbatim>\<open>getTime()\<close>, an \<^typ>\<open>int\<close> of milliseconds.
  \<^item> Everything one call reads from outside the program (the clock, the calendar, the
    exchange-rate provider) is a field of the record \<open>env\<close> given to that call; the clock
    is read as one instant per call.
  \<^item> The three module-level \<^verbatim>\<open>Map\<close>s and the source of \<^verbatim>\<open>uuidv4()\<close> are the record
    \<open>world\<close>, passed in and returned updated. \<^verbatim>\<open>uuidv4()\<close> hands out a counter.
  \<^item> \<^verbatim>\<open>async\<close> functions are run to completion: no other request interleaves.
  \<^item> Fields of the input entities that the two services never read (\<^verbatim>\<open>userId\<close>,
    \<^verbatim>\<open>country\<close>, \<^verbatim>\<open>createdAt\<close>, ...) are left out of the records; a field name used
    by two interfaces gets a prefix in one of them.
  \<^item> The text of an insight message is a value of the datatype \<open>Message\<close>: one
    constructor for each template literal of the source, holding the values the
    template interpolates.
\<close>

subsection \<open>Types (budget.models.ts)\<close>

type_synonym Currency = string
type_synonym Date = int
type_synonym uuid = nat

datatype DebtStrategy = snowball | avalanche
datatype StrategyType = percentage | zero_based | custom
datatype BucketStatus = UNDER | NEAR_LIMIT | OVER
datatype BucketType = NEEDS | WANTS | SAVINGS | DEBT
datatype InsightType = warning | alert | info | success
datatype TransactionType = expense | income | transfer

record Money =
  amount :: real
  currency :: Currency
  baseAmount :: real
  fxRate :: real
  fxTimestamp :: Date

record IncomeSource =
  income_id :: string
  income_name :: string
  income_money :: Money
  isActive :: bool

record Debt =
  debt_id :: string
  debt_name :: string
  debt_currency :: Currency
  debt_outstandingPrincipal :: Money
  interestRateAnnual :: real
  minMonthlyPayment :: Money

record Goal =
  goal_id :: string
  goal_name :: string
  goal_targetAmount :: Money
  goal_currentAmount :: Money
  targetDate :: string

text \<open>
  \<^verbatim>\<open>FxRate.id\<close> is the template \<^verbatim>\<open>fx_${from}_${to}_${Date.now()}\<close>: the triple of the
  interpolated values.
\<close>

record FxRate =
  fx_id :: "Currency \<times> Currency \<times> Date"
  fx_from :: Currency
  fx_to :: Currency
  rate :: real
  timestamp :: Date

record BucketPercents =
  needs :: real
  wants :: real
  savings :: real
  debt :: real

record LiabilityOriginPolicy =
  home :: real
  local_weight :: real
  global_weight :: real

record BudgetRuleSet =
  strategyType :: StrategyType
  rule_buckets :: BucketPercents
  minSavingsPercent :: real
  minDebtPercent :: real
  liabilityOriginPolicy :: LiabilityOriginPolicy
  emergencyFundPolicy :: real
  debtStrategy :: DebtStrategy

record CategoryBudget =
  cat_name :: string
  cat_planned :: real
  cat_spent :: real
  cat_remaining :: real
  cat_status :: BucketStatus

record SavingsAllocation =
  localEmergencyFund :: real
  homeCountryInvestments :: real
  globalInvestments :: real

record DebtAllocation =
  baseCurrencyDebt :: real
  homeCountryDebt :: real
  otherDebt :: real

text \<open>
  \<^verbatim>\<open>categories: Record<string, CategoryBudget>\<close> is a plain object: its own entries are
  an association list in insertion order (the order \<^verbatim>\<open>Object.entries\<close> walks; names that
  are canonical array indices, which JavaScript lists first, are not told apart).
\<close>

record BudgetBucket =
  bucket_type :: BucketType
  planned :: Money
  spent :: Money
  remaining :: Money
  status :: BucketStatus
  categories :: "(string \<times> CategoryBudget) list"
  savingsAllocation :: "SavingsAllocation option"
  debtAllocation :: "DebtAllocation option"

datatype Message =
    SavingsBelowMinimum real
  | DebtExceeds40Percent
  | ApproachingLimit BucketType int
  | ExceededBudgetBy BucketType int Currency
  | OverBudgetIn string
  | BudgetExceededByPercent BucketType real
  | BudgetPercentUsed BucketType real
  | OverBudgetInBy string real Currency
  | OnTrackWithSavings
  | GoalReached string
  | AlmostThere string real

record BudgetInsight =
  insight_id :: uuid
  insight_type :: InsightType
  message :: Message
  insight_bucket :: "BucketType option"
  insight_category :: "string option"
  insight_createdAt :: Date

record DebtSnapshot =
  debtId :: string
  snapshot_name :: string
  outstandingPrincipal :: Money
  allocatedPayment :: Money
  isMinimumPayment :: bool

record GoalSnapshot =
  goalId :: string
  goal_snapshot_name :: string
  targetAmount :: Money
  currentAmount :: Money
  monthlyContribution :: Money
  progressPercent :: real

text \<open>
  \<^verbatim>\<open>plan.buckets\<close> has exactly the four keys of \<open>BucketType\<close>, and
  \<^verbatim>\<open>plan.buckets[bucket]\<close> reads one of them: a function on \<open>BucketType\<close>.
\<close>

record MonthlyBudgetPlan =
  plan_id :: uuid
  userId :: string
  month :: string
  baseCurrency :: Currency
  totalIncome :: Money
  buckets :: "BucketType \<Rightarrow> BudgetBucket"
  debtsSnapshot :: "DebtSnapshot list"
  goalsSnapshot :: "GoalSnapshot list"
  insights :: "BudgetInsight list"
  createdAt :: Date
  updatedAt :: Date

record Transaction =
  tx_id :: uuid
  tx_userId :: string
  budgetPlanId :: uuid
  tx_type :: TransactionType
  tx_money :: Money
  tx_category :: string
  tx_bucket :: BucketType
  description :: string
  tx_date :: Date
  isRecurring :: bool
  tags :: "string list"
  tx_createdAt :: Date
  tx_updatedAt :: Date

subsection \<open>What a call reads from outside, and the state of the process\<close>

text \<open>
  \<open>now\<close> is \<^verbatim>\<open>Date.now()\<close>; \<open>nowYear\<close>, \<open>nowMonth\<close> and \<open>nowDay\<close> are
  \<^verbatim>\<open>getFullYear()\<close>, \<^verbatim>\<open>getMonth()\<close> and \<^verbatim>\<open>getDate()\<close> of \<^verbatim>\<open>new Date()\<close>;
  \<open>parseYearMonth s\<close> is the year and month index of \<^verbatim>\<open>new Date(s)\<close>, \<open>None\<close> for an
  invalid date; \<open>daysInMonth m\<close> is
  \<^verbatim>\<open>new Date(parseInt(m.split("-")[0]), parseInt(m.split("-")[1]), 0).getDate()\<close>, \<open>None\<close>
  when that is \<^verbatim>\<open>NaN\<close>; \<open>api from\<close> is the table \<^verbatim>\<open>data.rates\<close> of a successful response
  of the rate provider for \<open>from\<close>, \<open>None\<close> when the request throws or is not \<^verbatim>\<open>ok\<close>.
\<close>

record env =
  now :: Date
  nowYear :: int
  nowMonth :: int
  nowDay :: int
  parseYearMonth :: "string \<Rightarrow> (int \<times> int) option"
  daysInMonth :: "string \<Rightarrow> real option"
  api :: "Currency \<Rightarrow> (Currency \<rightharpoonup> real) option"

type_synonym fxCache = "string \<rightharpoonup> FxRate"

record world =
  budgetPlans :: "string \<rightharpoonup> MonthlyBudgetPlan"
  transactions :: "uuid \<rightharpoonup> Transaction"
  fxRateCache :: fxCache
  nextUuid :: nat

definition uuidv4 :: "world \<Rightarrow> uuid \<times> world" where
  "uuidv4 w = (nextUuid w, w\<lparr>nextUuid := Suc (nextUuid w)\<rparr>)"

subsection \<open>fx.service.ts\<close>

text \<open>
  \<^verbatim>\<open>DEFAULT_RATES\<close>, lines 12-23. A key that is not listed reads \<^verbatim>\<open>undefined\<close>; the
  names every object literal inherits are not keys of the form the callers build from
  currency codes and are not modelled here.
\<close>

definition DEFAULT_RATES :: "string \<rightharpoonup> real" where
  "DEFAULT_RATES = map_of
     [(''USD_AED'', 3.67), (''INR_AED'', 0.044), (''EUR_AED'', 3.98), (''GBP_AED'', 4.64),
      (''AED_USD'', 0.27), (''AED_INR'', 22.73), (''AED_EUR'', 0.25), (''AED_GBP'', 0.22),
      (''USD_INR'', 83.5), (''INR_USD'', 0.012)]"

definition getCacheKey :: "Currency \<Rightarrow> Currency \<Rightarrow> string" where
  "getCacheKey from to = from @ ''_'' @ to"

text \<open>\<^verbatim>\<open>a || b\<close> where \<open>a\<close> is a number or \<^verbatim>\<open>undefined\<close>: \<open>b\<close> when \<open>a\<close> is undefined or 0.\<close>

definition js_or :: "real option \<Rightarrow> real \<Rightarrow> real" where
  "js_or a b = (case a of None \<Rightarrow> b | Some x \<Rightarrow> if x = 0 then b else x)"

text \<open>Line 44: \<^verbatim>\<open>cached && Date.now() - cached.timestamp.getTime() < 3600000\<close>.\<close>

definition freshCached :: "env \<Rightarrow> FxRate option \<Rightarrow> FxRate option" where
  "freshCached e cached =
     (case cached of
        None \<Rightarrow> None
      | Some c \<Rightarrow> if now e - timestamp c < 3600000 then Some c else None)"

definition fetchFxRate :: "env \<Rightarrow> Currency \<Rightarrow> Currency \<Rightarrow> fxCache \<Rightarrow> FxRate \<times> fxCache" where
  "fetchFxRate e from to cache =
     (let cacheKey = getCacheKey from to in
      case freshCached e (cache cacheKey) of
        Some cached \<Rightarrow> (cached, cache)
      | None \<Rightarrow>
          if from = to then
            (let r = \<lparr>fx_id = (from, to, now e), fx_from = from, fx_to = to,
                      rate = 1, timestamp = now e\<rparr>
             in (r, cache(cacheKey \<mapsto> r)))
          else
            (case api e from of
               Some rates \<Rightarrow>
                 (let r = \<lparr>fx_id = (from, to, now e), fx_from = from, fx_to = to,
                           rate = js_or (rates to) (js_or (DEFAULT_RATES cacheKey) 1),
                           timestamp = now e\<rparr>
                  in (r, cache(cacheKey \<mapsto> r)))
             | None \<Rightarrow>
                 (let defaultRate = js_or (DEFAULT_RATES cacheKey) 1;
                      r = \<lparr>fx_id = (from, to, now e), fx_from = from, fx_to = to,
                           rate = defaultRate, timestamp = now e\<rparr>
                  in (r, cache(cacheKey \<mapsto> r)))))"

definition convertCurrency ::
  "env \<Rightarrow> real \<Rightarrow> Currency \<Rightarrow> Currency \<Rightarrow> fxCache \<Rightarrow> (real \<times> FxRate) \<times> fxCache" where
  "convertCurrency e amt from to cache =
     (let (fxr, cache') = fetchFxRate e from to cache;
          convertedAmount = amt * rate fxr
      in ((convertedAmount, fxr), cache'))"

definition createMoney ::
  "env \<Rightarrow> real \<Rightarrow> Currency \<Rightarrow> Currency \<Rightarrow> fxCache \<Rightarrow> Money \<times> fxCache" where
  "createMoney e amt cur base cache =
     (let ((convertedAmount, fxr), cache') = convertCurrency e amt cur base cache
      in (\<lparr>amount = amt, currency = cur, baseAmount = convertedAmount,
           fxRate = rate fxr, fxTimestamp = timestamp fxr\<rparr>, cache'))"

definition clearFxCache :: "fxCache \<Rightarrow> fxCache" where
  "clearFxCache cache = Map.empty"

definition setFxRate :: "env \<Rightarrow> Currency \<Rightarrow> Currency \<Rightarrow> real \<Rightarrow> fxCache \<Rightarrow> FxRate \<times> fxCache" where
  "setFxRate e from to r cache =
     (let fxr = \<lparr>fx_id = (from, to, now e), fx_from = from, fx_to = to,
                 rate = r, timestamp = now e\<rparr>
      in (fxr, cache(getCacheKey from to \<mapsto> fxr)))"

subsection \<open>budget.service.ts: helpers\<close>

definition calculateStatus :: "real \<Rightarrow> real \<Rightarrow> BucketStatus" where
  "calculateStatus sp pl =
     (if pl = 0 then UNDER
      else (let ratio = sp / pl in
            if ratio > 1 then OVER
            else if ratio \<ge> 0.8 then NEAR_LIMIT
            else UNDER))"

definition getPlanKey :: "string \<Rightarrow> string \<Rightarrow> string" where
  "getPlanKey uid mon = uid @ ''_'' @ mon"

definition DEFAULT_BUDGET_RULES :: BudgetRuleSet where
  "DEFAULT_BUDGET_RULES =
     \<lparr>strategyType = percentage,
      rule_buckets = \<lparr>needs = 50, wants = 20, savings = 15, debt = 15\<rparr>,
      minSavingsPercent = 10,
      minDebtPercent = 5,
      liabilityOriginPolicy = \<lparr>home = 0.5, local_weight = 0.4, global_weight = 0.1\<rparr>,
      emergencyFundPolicy = 6,
      debtStrategy = avalanche\<rparr>"

fun DEFAULT_CATEGORIES :: "BucketType \<Rightarrow> string list" where
  "DEFAULT_CATEGORIES NEEDS =
     [''rent'', ''utilities'', ''groceries'', ''transport'', ''insurance'', ''healthcare'']"
| "DEFAULT_CATEGORIES WANTS =
     [''dining_out'', ''entertainment'', ''shopping'', ''subscriptions'', ''hobbies'', ''travel'']"
| "DEFAULT_CATEGORIES SAVINGS =
     [''emergency_fund'', ''investments'', ''retirement'', ''goals'']"
| "DEFAULT_CATEGORIES DEBT =
     [''credit_card'', ''home_loan'', ''personal_loan'', ''car_loan'', ''other_debt'']"

text \<open>\<^verbatim>\<open>Math.round\<close>: the nearest integer, a half rounded up.\<close>

definition Math_round :: "real \<Rightarrow> int" where
  "Math_round x = \<lfloor>x + 1 / 2\<rfloor>"

text \<open>\<^verbatim>\<open>insights.push({ id: uuidv4(), type, message, bucket, category, createdAt: new Date() })\<close>\<close>

definition pushInsight ::
  "env \<Rightarrow> InsightType \<Rightarrow> Message \<Rightarrow> BucketType option \<Rightarrow> string option \<Rightarrow>
   BudgetInsight list \<times> world \<Rightarrow> BudgetInsight list \<times> world" where
  "pushInsight e ty msg b c s =
     (let (i, w') = uuidv4 (snd s)
      in (fst s @ [\<lparr>insight_id = i, insight_type = ty, message = msg, insight_bucket = b,
                     insight_category = c, insight_createdAt = now e\<rparr>], w'))"

text \<open>
  \<^verbatim>\<open>createBucket\<close>, lines 286-331. \<^verbatim>\<open>categories[name] = {...}\<close> replaces the entry of a
  name already present and appends a new one otherwise.
\<close>

definition createBucket ::
  "env \<Rightarrow> BucketType \<Rightarrow> real \<Rightarrow> Currency \<Rightarrow> string list \<Rightarrow> BudgetBucket" where
  "createBucket e ty pl base categoryNames =
     (let perCategory = pl / real (length categoryNames);
          cats = fold (\<lambda>name cs. AList.update name
                         \<lparr>cat_name = name, cat_planned = perCategory, cat_spent = 0,
                          cat_remaining = perCategory, cat_status = UNDER\<rparr> cs)
                   categoryNames []
      in \<lparr>bucket_type = ty,
          planned = \<lparr>amount = pl, currency = base, baseAmount = pl, fxRate = 1,
                     fxTimestamp = now e\<rparr>,
          spent = \<lparr>amount = 0, currency = base, baseAmount = 0, fxRate = 1,
                   fxTimestamp = now e\<rparr>,
          remaining = \<lparr>amount = pl, currency = base, baseAmount = pl, fxRate = 1,
                       fxTimestamp = now e\<rparr>,
          status = UNDER,
          categories = cats,
          savingsAllocation = None,
          debtAllocation = None\<rparr>)"

text \<open>
  \<^verbatim>\<open>calculateMonthsRemaining\<close>, lines 336-343; \<open>None\<close> is the \<^verbatim>\<open>NaN\<close> of an invalid
  target date.
\<close>

definition calculateMonthsRemaining :: "env \<Rightarrow> string \<Rightarrow> int option" where
  "calculateMonthsRemaining e tgt =
     (case parseYearMonth e tgt of
        None \<Rightarrow> None
      | Some (y, m) \<Rightarrow> Some (max 0 ((y - nowYear e) * 12 + (m - nowMonth e))))"

subsection \<open>budget.service.ts: generateBudgetPlan\<close>

text \<open>
  Lines 117-125. Both comparators are differences of two numbers, so they order the
  debts by a key; \<^verbatim>\<open>Array.prototype.sort\<close> is stable, and so is \<open>sort_key\<close>. Descending
  interest rate is ascending negated rate.
\<close>

definition sortedDebts :: "BudgetRuleSet \<Rightarrow> Debt list \<Rightarrow> Debt list" where
  "sortedDebts rules debts =
     (if debtStrategy rules = snowball
      then sort_key (\<lambda>d. baseAmount (debt_outstandingPrincipal d)) debts
      else sort_key (\<lambda>d. - interestRateAnnual d) debts)"

text \<open>
  The loop of lines 130-157 over the sorted debts, with its two variables
  \<^verbatim>\<open>remainingDebtBudget\<close> and \<^verbatim>\<open>debtSnapshots\<close> and the rate cache that
  \<^verbatim>\<open>createMoney\<close> reads and writes.
\<close>

fun allocateDebtPayments ::
  "env \<Rightarrow> Currency \<Rightarrow> Debt list \<Rightarrow> real \<Rightarrow> DebtSnapshot list \<Rightarrow> fxCache \<Rightarrow>
   DebtSnapshot list \<times> fxCache" where
  "allocateDebtPayments e base [] remainingDebtBudget debtSnapshots cache =
     (debtSnapshots, cache)"
| "allocateDebtPayments e base (d # ds) remainingDebtBudget debtSnapshots cache =
     (let minPayment = baseAmount (minMonthlyPayment d);
          extra = (remainingDebtBudget > minPayment \<and> length debtSnapshots = 0);
          allocated = (if extra
                       then min remainingDebtBudget (baseAmount (debt_outstandingPrincipal d))
                       else minPayment);
          isMinimum = (\<not> extra);
          (m, cache') = createMoney e allocated base base cache
      in allocateDebtPayments e base ds (remainingDebtBudget - allocated)
           (debtSnapshots @
              [\<lparr>debtId = debt_id d, snapshot_name = debt_name d,
                outstandingPrincipal = debt_outstandingPrincipal d,
                allocatedPayment = m, isMinimumPayment = isMinimum\<rparr>])
           cache')"

text \<open>Lines 160-174. \<^verbatim>\<open>debt?.currency\<close> is \<^verbatim>\<open>undefined\<close> when no debt has the id.\<close>

definition debtAllocationOf :: "Currency \<Rightarrow> Debt list \<Rightarrow> DebtSnapshot list \<Rightarrow> DebtAllocation" where
  "debtAllocationOf base debts debtSnapshots =
     \<lparr>baseCurrencyDebt =
        foldl (\<lambda>sum d. sum + baseAmount (allocatedPayment d)) 0
          (filter (\<lambda>d. case find (\<lambda>db. debt_id db = debtId d) debts of
                          Some db \<Rightarrow> debt_currency db = base | None \<Rightarrow> False)
             debtSnapshots),
      homeCountryDebt =
        foldl (\<lambda>sum d. sum + baseAmount (allocatedPayment d)) 0
          (filter (\<lambda>d. case find (\<lambda>db. debt_id db = debtId d) debts of
                          Some db \<Rightarrow> debt_currency db \<noteq> base | None \<Rightarrow> True)
             debtSnapshots),
      otherDebt = 0\<rparr>"

text \<open>The body of the \<^verbatim>\<open>goals.map\<close> of lines 177-202.\<close>

definition goalSnapshotOf :: "env \<Rightarrow> Currency \<Rightarrow> Goal \<Rightarrow> GoalSnapshot" where
  "goalSnapshotOf e base goal =
     (let monthsRemaining = calculateMonthsRemaining e (targetDate goal);
          amountNeeded = baseAmount (goal_targetAmount goal) - baseAmount (goal_currentAmount goal);
          contribution = (case monthsRemaining of
                            None \<Rightarrow> 0
                          | Some n \<Rightarrow> if n > 0 then amountNeeded / real_of_int n else 0);
          progress = (if baseAmount (goal_targetAmount goal) > 0
                      then baseAmount (goal_currentAmount goal) /
                           baseAmount (goal_targetAmount goal) * 100
                      else 0)
      in \<lparr>goalId = goal_id goal, goal_snapshot_name = goal_name goal,
          targetAmount = goal_targetAmount goal, currentAmount = goal_currentAmount goal,
          monthlyContribution = \<lparr>amount = contribution, currency = base,
                                  baseAmount = contribution, fxRate = 1, fxTimestamp = now e\<rparr>,
          progressPercent = progress\<rparr>)"

text \<open>
  \<^verbatim>\<open>generateBudgetPlan\<close>, lines 57-281. \<open>savingsPlanned0\<close> and \<open>debtPlanned0\<close> are the
  variables \<^verbatim>\<open>savingsPlanned\<close> and \<^verbatim>\<open>debtPlanned\<close> before the assignments of lines 99
  and 105, \<open>savingsPlanned\<close> and \<open>debtPlanned\<close> after them. The caller passes
  \<open>DEFAULT_BUDGET_RULES\<close> where the source takes the default parameter.
\<close>

definition generateBudgetPlan ::
  "env \<Rightarrow> string \<Rightarrow> string \<Rightarrow> Currency \<Rightarrow> IncomeSource list \<Rightarrow> Debt list \<Rightarrow> Goal list \<Rightarrow>
   BudgetRuleSet \<Rightarrow> world \<Rightarrow> MonthlyBudgetPlan \<times> world" where
  "generateBudgetPlan e uid mon base incomes debts goals rules w =
     (let totalIncomeBase =
            foldl (\<lambda>t i. t + baseAmount (income_money i)) 0 (filter isActive incomes);
          (totalIncomeM, c1) = createMoney e totalIncomeBase base base (fxRateCache w);
          needsPlanned = totalIncomeBase * needs (rule_buckets rules) / 100;
          wantsPlanned = totalIncomeBase * wants (rule_buckets rules) / 100;
          savingsPlanned0 = totalIncomeBase * savings (rule_buckets rules) / 100;
          debtPlanned0 = totalIncomeBase * debt (rule_buckets rules) / 100;
          minSavings = totalIncomeBase * (minSavingsPercent rules / 100);
          totalMinDebtPayments =
            foldl (\<lambda>sum d. sum + baseAmount (minMonthlyPayment d)) 0 debts;
          savingsPlanned = (if savingsPlanned0 < minSavings then minSavings else savingsPlanned0);
          debtPlanned = (if debtPlanned0 < totalMinDebtPayments then totalMinDebtPayments
                         else debtPlanned0);
          savingsAlloc =
            \<lparr>localEmergencyFund = savingsPlanned * local_weight (liabilityOriginPolicy rules),
             homeCountryInvestments = savingsPlanned * home (liabilityOriginPolicy rules),
             globalInvestments = savingsPlanned * global_weight (liabilityOriginPolicy rules)\<rparr>;
          (debtSnapshots, c2) =
            allocateDebtPayments e base (sortedDebts rules debts) debtPlanned [] c1;
          debtAlloc = debtAllocationOf base debts debtSnapshots;
          goalsSnapshots = map (goalSnapshotOf e base) goals;
          bks = (\<lambda>t. case t of
                   NEEDS \<Rightarrow> createBucket e NEEDS needsPlanned base (DEFAULT_CATEGORIES NEEDS)
                 | WANTS \<Rightarrow> createBucket e WANTS wantsPlanned base (DEFAULT_CATEGORIES WANTS)
                 | SAVINGS \<Rightarrow>
                     (createBucket e SAVINGS savingsPlanned base (DEFAULT_CATEGORIES SAVINGS))
                       \<lparr>savingsAllocation := Some savingsAlloc\<rparr>
                 | DEBT \<Rightarrow>
                     (createBucket e DEBT debtPlanned base (DEFAULT_CATEGORIES DEBT))
                       \<lparr>debtAllocation := Some debtAlloc\<rparr>);
          s0 = ([], w\<lparr>fxRateCache := c2\<rparr>);
          s1 = (if savingsPlanned < minSavings
                then pushInsight e warning (SavingsBelowMinimum (minSavingsPercent rules))
                       (Some SAVINGS) None s0
                else s0);
          s2 = (if debtPlanned > totalIncomeBase * 0.4
                then pushInsight e alert DebtExceeds40Percent (Some DEBT) None s1
                else s1);
          (pid, w3) = uuidv4 (snd s2);
          plan = \<lparr>plan_id = pid, userId = uid, month = mon, baseCurrency = base,
                  totalIncome = totalIncomeM, buckets = bks, debtsSnapshot = debtSnapshots,
                  goalsSnapshot = goalsSnapshots, insights = fst s2,
                  createdAt = now e, updatedAt = now e\<rparr>
      in (plan, w3\<lparr>budgetPlans := (budgetPlans w3)(getPlanKey uid mon \<mapsto> plan)\<rparr>))"

subsection \<open>budget.service.ts: logTransaction\<close>

text \<open>Lines 395-404, \<^verbatim>\<open>// Update bucket\<close>.\<close>

definition updateBucket :: "Money \<Rightarrow> BudgetBucket \<Rightarrow> BudgetBucket" where
  "updateBucket money b =
     (let sp = (spent b)\<lparr>baseAmount := baseAmount (spent b) + baseAmount money,
                         amount := amount (spent b) + baseAmount money\<rparr>;
          rm = (remaining b)\<lparr>baseAmount := baseAmount (planned b) - baseAmount sp,
                             amount := baseAmount (planned b) - baseAmount sp\<rparr>
      in b\<lparr>spent := sp, remaining := rm,
           status := calculateStatus (baseAmount sp) (baseAmount (planned b))\<rparr>)"

text \<open>
  The property names every object literal inherits from \<^verbatim>\<open>Object.prototype\<close>.
  \<^verbatim>\<open>categories\<close> is created as \<^verbatim>\<open>{}\<close> (line 292), so \<^verbatim>\<open>categories[name]\<close> reads the
  inherited member, a function or an object and so truthy, when \<open>name\<close> is one of
  these and no own entry has the name.
\<close>

definition objectPrototypeMembers :: "string list" where
  "objectPrototypeMembers =
     [''constructor'', ''hasOwnProperty'', ''isPrototypeOf'', ''propertyIsEnumerable'',
      ''toLocaleString'', ''toString'', ''valueOf'', ''__defineGetter__'',
      ''__defineSetter__'', ''__lookupGetter__'', ''__lookupSetter__'', ''__proto__'']"

text \<open>
  Lines 406-421, \<^verbatim>\<open>// Update category\<close>. With an own entry the entry is updated in
  place. With an inherited member the first branch runs too, but its three assignments
  write \<^verbatim>\<open>spent\<close>, \<^verbatim>\<open>remaining\<close> and \<^verbatim>\<open>status\<close> on that member: the own entries stay as
  they are (what the writes do to the shared prototype is not modelled). Otherwise the
  \<^verbatim>\<open>else\<close> branch appends a new entry.
\<close>

definition updateCategory ::
  "Money \<Rightarrow> string \<Rightarrow> (string \<times> CategoryBudget) list \<Rightarrow> (string \<times> CategoryBudget) list" where
  "updateCategory money category cats =
     (case map_of cats category of
        Some cat \<Rightarrow>
          (let sp = cat_spent cat + baseAmount money
           in AList.update category
                (cat\<lparr>cat_spent := sp, cat_remaining := cat_planned cat - sp,
                     cat_status := calculateStatus sp (cat_planned cat)\<rparr>) cats)
      | None \<Rightarrow>
          if category \<in> set objectPrototypeMembers then cats
          else AList.update category
                 \<lparr>cat_name = category, cat_planned = 0, cat_spent = baseAmount money,
                  cat_remaining = - baseAmount money, cat_status = OVER\<rparr> cats)"

text \<open>
  \<^verbatim>\<open>logTransaction\<close>, lines 351-470. The stored plan object is mutated in place and
  stored again under its key; the model stores the updated plan. Line 450 reads the
  status of the own entry; the status it reads on an inherited member is the
  \<^verbatim>\<open>"UNDER"\<close> that line 411 has just written there, never \<^verbatim>\<open>"OVER"\<close>.
\<close>

definition logTransaction ::
  "env \<Rightarrow> string \<Rightarrow> string \<Rightarrow> real \<Rightarrow> Currency \<Rightarrow> Currency \<Rightarrow> string \<Rightarrow> BucketType \<Rightarrow>
   string \<Rightarrow> Date \<Rightarrow> string list \<Rightarrow> world \<Rightarrow>
   (Transaction \<times> MonthlyBudgetPlan \<times> BudgetInsight list) \<times> world" where
  "logTransaction e uid mon amt cur base category bucket descr dt tgs w =
     (let (plan, w1) =
            (case budgetPlans w (getPlanKey uid mon) of
               Some p \<Rightarrow> (p, w)
             | None \<Rightarrow> generateBudgetPlan e uid mon base [] [] [] DEFAULT_BUDGET_RULES w);
          (money, c) = createMoney e amt cur base (fxRateCache w1);
          (tid, w2) = uuidv4 (w1\<lparr>fxRateCache := c\<rparr>);
          transaction =
            \<lparr>tx_id = tid, tx_userId = uid, budgetPlanId = plan_id plan,
             tx_type = (if amt < 0 then income else expense), tx_money = money,
             tx_category = category, tx_bucket = bucket, description = descr, tx_date = dt,
             isRecurring = False, tags = tgs, tx_createdAt = now e, tx_updatedAt = now e\<rparr>;
          bucketData0 = updateBucket money (buckets plan bucket);
          bucketData = bucketData0\<lparr>categories :=
                         updateCategory money category (categories bucketData0)\<rparr>;
          s0 = ([], w2);
          s1 = (if status bucketData = NEAR_LIMIT
                then pushInsight e warning
                       (ApproachingLimit bucket
                          (Math_round (baseAmount (spent bucketData) /
                                       baseAmount (planned bucketData) * 100)))
                       (Some bucket) None s0
                else s0);
          s2 = (if status bucketData = OVER
                then pushInsight e alert
                       (ExceededBudgetBy bucket
                          (Math_round (baseAmount (spent bucketData) -
                                       baseAmount (planned bucketData))) base)
                       (Some bucket) None s1
                else s1);
          s3 = (if map_option cat_status (map_of (categories bucketData) category) = Some OVER
                then pushInsight e alert (OverBudgetIn category) (Some bucket) (Some category) s2
                else s2);
          newInsights = fst s3;
          plan' = plan\<lparr>buckets := (buckets plan)(bucket := bucketData),
                       insights := insights plan @ newInsights,
                       updatedAt := now e\<rparr>;
          w3 = snd s3
      in ((transaction, plan', newInsights),
          w3\<lparr>transactions := (transactions w3)(tid \<mapsto> transaction),
             budgetPlans := (budgetPlans w3)(getPlanKey uid mon \<mapsto> plan')\<rparr>))"

subsection \<open>budget.service.ts: retrieval and generateInsights\<close>

definition getBudgetPlan :: "string \<Rightarrow> string \<Rightarrow> world \<Rightarrow> MonthlyBudgetPlan option" where
  "getBudgetPlan uid mon w = budgetPlans w (getPlanKey uid mon)"

definition getInsights :: "string \<Rightarrow> string \<Rightarrow> world \<Rightarrow> BudgetInsight list" where
  "getInsights uid mon w =
     (case budgetPlans w (getPlanKey uid mon) of None \<Rightarrow> [] | Some p \<Rightarrow> insights p)"

text \<open>The inner loop of lines 546-559 over the entries of one bucket's categories.\<close>

fun categoryInsights ::
  "env \<Rightarrow> Currency \<Rightarrow> BucketType \<Rightarrow> (string \<times> CategoryBudget) list \<Rightarrow>
   BudgetInsight list \<times> world \<Rightarrow> BudgetInsight list \<times> world" where
  "categoryInsights e base bt [] s = s"
| "categoryInsights e base bt ((catName, cat) # cs) s =
     categoryInsights e base bt cs
       (if cat_status cat = OVER
        then pushInsight e alert (OverBudgetInBy catName \<bar>cat_remaining cat\<bar> base)
               (Some bt) (Some catName) s
        else s)"

text \<open>The body of the outer loop of lines 517-560 for one bucket.\<close>

definition bucketInsights ::
  "env \<Rightarrow> MonthlyBudgetPlan \<Rightarrow> BucketType \<Rightarrow> BudgetInsight list \<times> world \<Rightarrow>
   BudgetInsight list \<times> world" where
  "bucketInsights e plan bt s =
     (let bucket = buckets plan bt;
          percentUsed = (if baseAmount (planned bucket) > 0
                         then baseAmount (spent bucket) / baseAmount (planned bucket) * 100
                         else 0);
          s1 = (if percentUsed \<ge> 100
                then pushInsight e alert (BudgetExceededByPercent bt (percentUsed - 100))
                       (Some bt) None s
                else if percentUsed \<ge> 80
                then pushInsight e warning (BudgetPercentUsed bt percentUsed) (Some bt) None s
                else s)
      in categoryInsights e (baseCurrency plan) bt (categories bucket) s1)"

text \<open>The loop of lines 583-601 over the goal snapshots.\<close>

fun goalInsights ::
  "env \<Rightarrow> GoalSnapshot list \<Rightarrow> BudgetInsight list \<times> world \<Rightarrow> BudgetInsight list \<times> world" where
  "goalInsights e [] s = s"
| "goalInsights e (goal # gs) s =
     goalInsights e gs
       (if progressPercent goal \<ge> 100
        then pushInsight e success (GoalReached (goal_snapshot_name goal)) None None s
        else if progressPercent goal \<ge> 75
        then pushInsight e info
               (AlmostThere (goal_snapshot_name goal) (progressPercent goal)) None None s
        else s)"

text \<open>
  \<^verbatim>\<open>generateInsights\<close>, lines 513-604. \<^verbatim>\<open>Object.entries(plan.buckets)\<close> walks the four
  buckets in the order the plan literal of lines 205-236 lists them. The function
  returns its list; the world it returns shows what the call did to the state.
\<close>

definition generateInsights ::
  "env \<Rightarrow> MonthlyBudgetPlan \<Rightarrow> world \<Rightarrow> BudgetInsight list \<times> world" where
  "generateInsights e plan w =
     (let s1 = fold (bucketInsights e plan) [NEEDS, WANTS, SAVINGS, DEBT] ([], w);
          s2 = (if baseAmount (spent (buckets plan SAVINGS)) <
                   baseAmount (planned (buckets plan SAVINGS)) * 0.5
                then (case daysInMonth e (month plan) of
                        None \<Rightarrow> s1
                      | Some days \<Rightarrow>
                          if real_of_int (nowDay e) > days / 2
                          then pushInsight e info OnTrackWithSavings (Some SAVINGS) None s1
                          else s1)
                else s1)
      in goalInsights e (goalsSnapshot plan) s2)"

subsection \<open>Quantities of generateBudgetPlan named for the statements\<close>

text \<open>
  The values of the local variables \<^verbatim>\<open>totalIncomeBase\<close> (lines 73-76), \<^verbatim>\<open>minSavings\<close>
  (line 91), \<^verbatim>\<open>savingsPlanned\<close> at line 87 and \<^verbatim>\<open>debtPlanned\<close> after line 107, as
  functions of the arguments of \<open>generateBudgetPlan\<close>.
\<close>

definition totalIncomeBaseOf :: "IncomeSource list \<Rightarrow> real" where
  "totalIncomeBaseOf incomes =
     foldl (\<lambda>t i. t + baseAmount (income_money i)) 0 (filter isActive incomes)"

definition minSavingsOf :: "BudgetRuleSet \<Rightarrow> IncomeSource list \<Rightarrow> real" where
  "minSavingsOf rules incomes = totalIncomeBaseOf incomes * (minSavingsPercent rules / 100)"

definition percentSavingsOf :: "BudgetRuleSet \<Rightarrow> IncomeSource list \<Rightarrow> real" where
  "percentSavingsOf rules incomes = totalIncomeBaseOf incomes * savings (rule_buckets rules) / 100"

definition debtPlannedOf :: "BudgetRuleSet \<Rightarrow> IncomeSource list \<Rightarrow> Debt list \<Rightarrow> real" where
  "debtPlannedOf rules incomes debts =
     (let debtPlanned0 = totalIncomeBaseOf incomes * debt (rule_buckets rules) / 100;
          totalMinDebtPayments = foldl (\<lambda>sum d. sum + baseAmount (minMonthlyPayment d)) 0 debts
      in if debtPlanned0 < totalMinDebtPayments then totalMinDebtPayments else debtPlanned0)"

text \<open>
  Lines 87, 91 and 98-101 on their own, with the product \<open>mulOp\<close> and the quotient
  \<open>divOp\<close> as parameters (the double operations of the source, or the exact ones of this
  theory): the planned savings after the enforcement, and the floor \<^verbatim>\<open>minSavings\<close>.
\<close>

definition savingsFloorStep ::
  "(real \<Rightarrow> real \<Rightarrow> real) \<Rightarrow> (real \<Rightarrow> real \<Rightarrow> real) \<Rightarrow> real \<Rightarrow> BudgetRuleSet \<Rightarrow> real \<times> real" where
  "savingsFloorStep mulOp divOp totalIncomeBase rules =
     (let savingsPlanned0 = divOp (mulOp totalIncomeBase (savings (rule_buckets rules))) 100;
          minSavings = mulOp totalIncomeBase (divOp (minSavingsPercent rules) 100);
          savingsPlanned = (if savingsPlanned0 < minSavings then minSavings else savingsPlanned0)
      in (savingsPlanned, minSavings))"

subsection \<open>Concrete inputs\<close>

definition env0 :: env where
  "env0 = \<lparr>now = 1767225600000, nowYear = 2026, nowMonth = 0, nowDay = 1,
            parseYearMonth = (\<lambda>_. None), daysInMonth = (\<lambda>_. None), api = (\<lambda>_. None)\<rparr>"

definition world0 :: world where
  "world0 = \<lparr>budgetPlans = Map.empty, transactions = Map.empty, fxRateCache = Map.empty,
              nextUuid = 0\<rparr>"

definition aed :: "real \<Rightarrow> Money" where
  "aed x = \<lparr>amount = x, currency = ''AED'', baseAmount = x, fxRate = 1, fxTimestamp = 0\<rparr>"

definition salary :: IncomeSource where
  "salary = \<lparr>income_id = ''inc1'', income_name = ''salary'', income_money = aed 10000,
             isActive = True\<rparr>"

text \<open>A debt whose outstanding principal (50) is below its minimum payment (100).\<close>

definition card :: Debt where
  "card = \<lparr>debt_id = ''d1'', debt_name = ''card'', debt_currency = ''AED'',
           debt_outstandingPrincipal = aed 50, interestRateAnnual = 20,
           minMonthlyPayment = aed 100\<rparr>"

definition loan :: Debt where
  "loan = \<lparr>debt_id = ''d2'', debt_name = ''loan'', debt_currency = ''AED'',
           debt_outstandingPrincipal = aed 20000, interestRateAnnual = 5,
           minMonthlyPayment = aed 400\<rparr>"

text \<open>The default rules with 5% for savings, below the 10% floor.\<close>

definition lowSavingsRules :: BudgetRuleSet where
  "lowSavingsRules =
     DEFAULT_BUDGET_RULES\<lparr>rule_buckets := \<lparr>needs = 50, wants = 30, savings = 5, debt = 15\<rparr>\<rparr>"

text \<open>The process state after \<^verbatim>\<open>setFxRate("AED", "AED", 2)\<close> on an empty cache.\<close>

definition overriddenWorld :: world where
  "overriddenWorld =
     world0\<lparr>fxRateCache := snd (setFxRate env0 ''AED'' ''AED'' 2 Map.empty)\<rparr>"

text \<open>
  A run of the engine: a plan for user u1 and January 2026 from one salary of 10000 and
  the default rules; then, on that state, a first expense of 100 and a second of 50 in
  the new category pets of NEEDS; and, on the state after the plan, one expense of 100 in
  the category named constructor.
\<close>

definition afterPlan :: world where
  "afterPlan = snd (generateBudgetPlan env0 ''u1'' ''2026-01'' ''AED'' [salary] [] []
                      DEFAULT_BUDGET_RULES world0)"

definition afterFirstExpense :: world where
  "afterFirstExpense =
     snd (logTransaction env0 ''u1'' ''2026-01'' 100 ''AED'' ''AED'' ''pets'' NEEDS ''vet''
            (now env0) [] afterPlan)"

definition afterSecondExpense :: world where
  "afterSecondExpense =
     snd (logTransaction env0 ''u1'' ''2026-01'' 50 ''AED'' ''AED'' ''pets'' NEEDS ''food''
            (now env0) [] afterFirstExpense)"

definition afterConstructorExpense :: world where
  "afterConstructorExpense =
     snd (logTransaction env0 ''u1'' ''2026-01'' 100 ''AED'' ''AED'' ''constructor'' NEEDS
            ''misc'' (now env0) [] afterPlan)"

text \<open>The sum of spent over the own category entries of a bucket.\<close>

definition categoriesSpent :: "BudgetBucket \<Rightarrow> real" where
  "categoriesSpent b = sum_list (map (\<lambda>(name, cat). cat_spent cat) (categories b))"

subsection \<open>Reachable states and the invariant of a bucket\<close>

text \<open>
  The states the process reaches from one with no stored plan by calls of
  \<open>generateBudgetPlan\<close> and \<open>logTransaction\<close> with any arguments, where the category name
  of every logged transaction satisfies \<open>ok\<close>.
\<close>

inductive reachable :: "(string \<Rightarrow> bool) \<Rightarrow> world \<Rightarrow> bool" for ok :: "string \<Rightarrow> bool" where
  start: "budgetPlans w = Map.empty \<Longrightarrow> reachable ok w"
| generate: "reachable ok w \<Longrightarrow>
     reachable ok (snd (generateBudgetPlan e uid mon base incomes debts goals rules w))"
| log: "reachable ok w \<Longrightarrow> ok category \<Longrightarrow>
     reachable ok (snd (logTransaction e uid mon amt cur base category bucket descr dt tgs w))"

text \<open>
  A bucket is in step when its spent amount is the sum of spent over its categories (and
  no category name has two entries).
\<close>

definition bucketInStep :: "BudgetBucket \<Rightarrow> bool" where
  "bucketInStep b \<longleftrightarrow>
     baseAmount (spent b) = categoriesSpent b \<and> distinct (map fst (categories b))"

section \<open>Status classification\<close>

text \<open>
  C6 (as amended). For every spent and every planned amount that is not negative,
  \<open>calculateStatus\<close> returns OVER iff spent > planned and planned is not 0, NEAR_LIMIT iff
  planned is not 0 and 0.8 * planned <= spent <= planned, and UNDER otherwise; it returns
  UNDER whenever planned is 0.
\<close>

theorem calculateStatus_nonneg_planned:
  assumes "0 \<le> pl"
  shows "(calculateStatus sp pl = OVER \<longleftrightarrow> sp > pl \<and> pl \<noteq> 0)
       \<and> (calculateStatus sp pl = NEAR_LIMIT \<longleftrightarrow> pl \<noteq> 0 \<and> 0.8 * pl \<le> sp \<and> sp \<le> pl)
       \<and> (calculateStatus sp pl = UNDER \<longleftrightarrow>
            \<not> (sp > pl \<and> pl \<noteq> 0) \<and> \<not> (pl \<noteq> 0 \<and> 0.8 * pl \<le> sp \<and> sp \<le> pl))
       \<and> (pl = 0 \<longrightarrow> calculateStatus sp pl = UNDER)"
  using assms by (auto simp: calculateStatus_def Let_def field_simps)

theorem calculateStatus_nonneg_planned_witness:
  "(0::real) \<le> 1000 \<and> calculateStatus 900 1000 = NEAR_LIMIT"
  using calculateStatus_nonneg_planned [of 1000 900] by simp

text \<open>
  C6 as stated fails for a negative planned amount: with planned = -10 and spent = -20
  the ratio is 2, so the status is OVER, although spent > planned is false.
\<close>

theorem calculateStatus_negative_planned_counterexample:
  "calculateStatus (-20) (-10) = OVER \<and> \<not> ((-20::real) > -10 \<and> (-10::real) \<noteq> 0)"
  by (simp add: calculateStatus_def)

text \<open>For a negative planned amount the two comparisons are the other way round.\<close>

lemma calculateStatus_neg_planned:
  assumes "pl < 0"
  shows "(calculateStatus sp pl = OVER \<longleftrightarrow> sp < pl)
       \<and> (calculateStatus sp pl = NEAR_LIMIT \<longleftrightarrow> pl \<le> sp \<and> sp \<le> 0.8 * pl)"
  using assms by (auto simp: calculateStatus_def Let_def field_simps)

section \<open>Same-currency money\<close>

lemma fetchFxRate_same_currency:
  "fetchFxRate e X X cache =
     (case freshCached e (cache (getCacheKey X X)) of
        Some cached \<Rightarrow> (cached, cache)
      | None \<Rightarrow>
          (\<lparr>fx_id = (X, X, now e), fx_from = X, fx_to = X, rate = 1, timestamp = now e\<rparr>,
           cache(getCacheKey X X \<mapsto>
             \<lparr>fx_id = (X, X, now e), fx_from = X, fx_to = X, rate = 1, timestamp = now e\<rparr>)))"
  by (simp add: fetchFxRate_def Let_def split: option.split)

lemma createMoney_fst:
  "fst (createMoney e amt cur base cache) =
     \<lparr>amount = amt, currency = cur,
      baseAmount = amt * rate (fst (fetchFxRate e cur base cache)),
      fxRate = rate (fst (fetchFxRate e cur base cache)),
      fxTimestamp = timestamp (fst (fetchFxRate e cur base cache))\<rparr>"
  by (simp add: createMoney_def convertCurrency_def Let_def split_def)

lemma createMoney_snd:
  "snd (createMoney e amt cur base cache) = snd (fetchFxRate e cur base cache)"
  by (simp add: createMoney_def convertCurrency_def Let_def split_def)

lemma createMoney_same_stale:
  "freshCached e (cache (getCacheKey X X)) = None \<Longrightarrow>
   fst (createMoney e amt X X cache) =
     \<lparr>amount = amt, currency = X, baseAmount = amt, fxRate = 1, fxTimestamp = now e\<rparr>"
  by (simp add: createMoney_fst fetchFxRate_same_currency)

lemma createMoney_same_fresh:
  "freshCached e (cache (getCacheKey X X)) = Some c \<Longrightarrow>
   fst (createMoney e amt X X cache) =
     \<lparr>amount = amt, currency = X, baseAmount = amt * rate c, fxRate = rate c,
      fxTimestamp = timestamp c\<rparr>
   \<and> snd (createMoney e amt X X cache) = cache"
  by (simp add: createMoney_fst createMoney_snd fetchFxRate_same_currency)

text \<open>
  C7 (as amended). For every amount and every currency X, \<open>createMoney amount X X\<close>
  returns baseAmount = amount and fxRate = 1 from every state of the rate cache that has,
  under the key of the pair (X, X), no entry younger than one hour; from a state with such
  an entry (one written by an earlier lookup, whose rate is 1, or by \<open>setFxRate\<close>, whose
  rate is the caller's) it returns that entry's rate r as fxRate and amount * r as
  baseAmount.
\<close>

theorem createMoney_same_currency:
  "(case freshCached e (cache (getCacheKey X X)) of
      None \<Rightarrow> baseAmount (fst (createMoney e amt X X cache)) = amt
             \<and> fxRate (fst (createMoney e amt X X cache)) = 1
    | Some c \<Rightarrow> baseAmount (fst (createMoney e amt X X cache)) = amt * rate c
               \<and> fxRate (fst (createMoney e amt X X cache)) = rate c)"
  by (simp add: createMoney_same_fresh createMoney_same_stale split: option.split)

theorem createMoney_same_currency_witness:
  "baseAmount (fst (createMoney env0 100 ''AED'' ''AED'' Map.empty)) = 100
   \<and> fxRate (fst (createMoney env0 100 ''AED'' ''AED'' Map.empty)) = 1"
  using createMoney_same_currency [where e = env0 and cache = Map.empty and X = "''AED''" and amt = 100]
  by (simp add: freshCached_def)

text \<open>
  C7 as stated fails after \<^verbatim>\<open>setFxRate("AED", "AED", 2)\<close>: the cache is read (line 43)
  before the currencies are compared (line 49).
\<close>

theorem createMoney_same_currency_counterexample:
  "baseAmount (fst (createMoney env0 100 ''AED'' ''AED''
      (snd (setFxRate env0 ''AED'' ''AED'' 2 Map.empty)))) = 200
   \<and> fxRate (fst (createMoney env0 100 ''AED'' ''AED''
      (snd (setFxRate env0 ''AED'' ''AED'' 2 Map.empty)))) = 2
   \<and> \<not> (baseAmount (fst (createMoney env0 100 ''AED'' ''AED''
          (snd (setFxRate env0 ''AED'' ''AED'' 2 Map.empty)))) = 100
        \<and> fxRate (fst (createMoney env0 100 ''AED'' ''AED''
          (snd (setFxRate env0 ''AED'' ''AED'' 2 Map.empty)))) = 1)"
  by (simp add: createMoney_fst fetchFxRate_same_currency setFxRate_def freshCached_def Let_def)

section \<open>The fields of a generated plan\<close>

lemma generateBudgetPlan_totalIncome:
  "totalIncome (fst (generateBudgetPlan e uid mon base incomes debts goals rules w)) =
     fst (createMoney e (totalIncomeBaseOf incomes) base base (fxRateCache w))"
  by (simp add: generateBudgetPlan_def Let_def split_def totalIncomeBaseOf_def)

lemma generateBudgetPlan_savings_planned:
  "baseAmount (planned (buckets (fst (generateBudgetPlan e uid mon base incomes debts goals rules w)) SAVINGS)) =
     (if percentSavingsOf rules incomes < minSavingsOf rules incomes
      then minSavingsOf rules incomes else percentSavingsOf rules incomes)"
  by (simp add: generateBudgetPlan_def Let_def split_def totalIncomeBaseOf_def
      percentSavingsOf_def minSavingsOf_def createBucket_def)

lemma generateBudgetPlan_debtsSnapshot:
  "debtsSnapshot (fst (generateBudgetPlan e uid mon base incomes debts goals rules w)) =
     fst (allocateDebtPayments e base (sortedDebts rules debts) (debtPlannedOf rules incomes debts) []
           (snd (createMoney e (totalIncomeBaseOf incomes) base base (fxRateCache w))))"
  by (simp add: generateBudgetPlan_def Let_def split_def totalIncomeBaseOf_def debtPlannedOf_def)

lemma generateBudgetPlan_insights:
  "insights (fst (generateBudgetPlan e uid mon base incomes debts goals rules w)) =
     (if debtPlannedOf rules incomes debts > totalIncomeBaseOf incomes * 0.4
      then [\<lparr>insight_id = nextUuid w, insight_type = alert, message = DebtExceeds40Percent,
             insight_bucket = Some DEBT, insight_category = None, insight_createdAt = now e\<rparr>]
      else [])"
  by (simp add: generateBudgetPlan_def Let_def split_def totalIncomeBaseOf_def debtPlannedOf_def
      pushInsight_def uuidv4_def)

lemma generateBudgetPlan_stored:
  "budgetPlans (snd (generateBudgetPlan e uid mon base incomes debts goals rules w)) =
     (budgetPlans w)(getPlanKey uid mon \<mapsto> fst (generateBudgetPlan e uid mon base incomes debts goals rules w))"
  by (simp add: generateBudgetPlan_def Let_def split_def uuidv4_def pushInsight_def)

section \<open>The savings floor\<close>

text \<open>
  The comparison and the assignment of lines 98-101 leave a planned amount that is at
  least the floor, whatever numbers the product and the quotient of lines 87 and 91 give:
  nothing of the arithmetic, exact or rounded, is used.
\<close>

lemma savingsFloorStep_floor:
  "snd (savingsFloorStep mulOp divOp T rules) \<le> fst (savingsFloorStep mulOp divOp T rules)"
  by (simp add: savingsFloorStep_def Let_def)

text \<open>The plan holds the result of that step, here with the exact product and quotient.\<close>

lemma generateBudgetPlan_savingsFloorStep:
  "baseAmount (planned (buckets (fst (generateBudgetPlan e uid mon base incomes debts goals rules w)) SAVINGS))
     = fst (savingsFloorStep (*) (/) (totalIncomeBaseOf incomes) rules)
   \<and> totalIncomeBaseOf incomes * (minSavingsPercent rules / 100)
     = snd (savingsFloorStep (*) (/) (totalIncomeBaseOf incomes) rules)"
  by (simp add: generateBudgetPlan_savings_planned savingsFloorStep_def Let_def
      percentSavingsOf_def minSavingsOf_def)

text \<open>
  C8 (as amended). For every call of \<open>generateBudgetPlan\<close>, the planned amount of the
  SAVINGS bucket is at least the floor that line 91 computes,
  totalIncomeBase * (minSavingsPercent / 100), where totalIncomeBase is the sum that lines
  73-76 accumulate over the active incomes; and whenever the rate cache holds, under the
  key of the pair (baseCurrency, baseCurrency), no entry younger than one hour with a rate
  other than 1, totalIncome.baseAmount is totalIncomeBase and the planned amount is at
  least totalIncome.baseAmount * (minSavingsPercent / 100).
\<close>

theorem generateBudgetPlan_savings_floor:
  "baseAmount (planned (buckets (fst (generateBudgetPlan e uid mon base incomes debts goals rules w)) SAVINGS))
     \<ge> totalIncomeBaseOf incomes * (minSavingsPercent rules / 100)
   \<and> ((case freshCached e (fxRateCache w (getCacheKey base base)) of
          None \<Rightarrow> True | Some c \<Rightarrow> rate c = 1) \<longrightarrow>
        baseAmount (totalIncome (fst (generateBudgetPlan e uid mon base incomes debts goals rules w)))
          = totalIncomeBaseOf incomes
        \<and> baseAmount (planned (buckets (fst (generateBudgetPlan e uid mon base incomes debts goals rules w)) SAVINGS))
          \<ge> baseAmount (totalIncome (fst (generateBudgetPlan e uid mon base incomes debts goals rules w)))
              * (minSavingsPercent rules / 100))"
proof -
  let ?plan = "fst (generateBudgetPlan e uid mon base incomes debts goals rules w)"
  have floor: "baseAmount (planned (buckets ?plan SAVINGS))
      \<ge> totalIncomeBaseOf incomes * (minSavingsPercent rules / 100)"
    using savingsFloorStep_floor [of "(*)" "(/)" "totalIncomeBaseOf incomes" rules]
    by (simp only: generateBudgetPlan_savingsFloorStep)
  have income: "baseAmount (totalIncome ?plan) = totalIncomeBaseOf incomes"
    if "case freshCached e (fxRateCache w (getCacheKey base base)) of
          None \<Rightarrow> True | Some c \<Rightarrow> rate c = 1"
    using that
    by (auto simp: generateBudgetPlan_totalIncome createMoney_same_stale
        createMoney_same_fresh split: option.splits)
  from floor income show ?thesis by simp
qed

theorem generateBudgetPlan_savings_floor_witness:
  "baseAmount (planned (buckets (fst (generateBudgetPlan env0 ''u1'' ''2026-01'' ''AED'' [salary] [] []
       DEFAULT_BUDGET_RULES world0)) SAVINGS))
     \<ge> baseAmount (totalIncome (fst (generateBudgetPlan env0 ''u1'' ''2026-01'' ''AED'' [salary] [] []
       DEFAULT_BUDGET_RULES world0))) * (minSavingsPercent DEFAULT_BUDGET_RULES / 100)"
  using generateBudgetPlan_savings_floor [where e = env0 and uid = "''u1''" and mon = "''2026-01''"
      and base = "''AED''" and incomes = "[salary]" and debts = "[]" and goals = "[]"
      and rules = DEFAULT_BUDGET_RULES and w = world0]
  by (simp add: world0_def freshCached_def)

text \<open>
  C8 as stated fails after \<^verbatim>\<open>setFxRate("AED", "AED", 2)\<close>: \<open>totalIncome\<close> is made by
  \<open>createMoney\<close> (line 78) and doubles, the planned amounts are computed from
  \<^verbatim>\<open>totalIncomeBase\<close> and do not: 1500 is planned against a floor of 2000. The
  run does not turn on rounding: 1500, 20000 and 20000 * 10 / 100 = 2000 are whole numbers
  that the doubles of the source hold exactly.

  The floor of the claim as stated, totalIncome * minSavingsPercent / 100, also takes the
  product first and the quotient second, the other way round than line 91. In the doubles
  of the source the two orders give different numbers (an income of 100 and 29 percent give
  29 one way and 28.999999999999996 the other), so there the planned amount can be below the
  floor as stated with no override at all; the amended statement is about the floor of
  line 91 for that reason.
\<close>

theorem generateBudgetPlan_savings_floor_counterexample:
  "baseAmount (planned (buckets (fst (generateBudgetPlan env0 ''u1'' ''2026-01'' ''AED'' [salary] [] []
       DEFAULT_BUDGET_RULES overriddenWorld)) SAVINGS)) = 1500
   \<and> baseAmount (totalIncome (fst (generateBudgetPlan env0 ''u1'' ''2026-01'' ''AED'' [salary] [] []
       DEFAULT_BUDGET_RULES overriddenWorld))) * minSavingsPercent DEFAULT_BUDGET_RULES / 100 = 2000
   \<and> \<not> (baseAmount (planned (buckets (fst (generateBudgetPlan env0 ''u1'' ''2026-01'' ''AED'' [salary]
          [] [] DEFAULT_BUDGET_RULES overriddenWorld)) SAVINGS))
        \<ge> baseAmount (totalIncome (fst (generateBudgetPlan env0 ''u1'' ''2026-01'' ''AED'' [salary]
          [] [] DEFAULT_BUDGET_RULES overriddenWorld))) * minSavingsPercent DEFAULT_BUDGET_RULES / 100)"
  by (simp add: generateBudgetPlan_savings_planned generateBudgetPlan_totalIncome
      createMoney_fst fetchFxRate_same_currency overriddenWorld_def world0_def setFxRate_def
      freshCached_def Let_def percentSavingsOf_def minSavingsOf_def totalIncomeBaseOf_def
      salary_def aed_def DEFAULT_BUDGET_RULES_def env0_def getCacheKey_def)

section \<open>The initial insights\<close>

text \<open>
  The test of line 241 reads \<^verbatim>\<open>savingsPlanned\<close> after line 99 has raised it to
  \<^verbatim>\<open>minSavings\<close>, so it is never true: no plan starts with a warning.
\<close>

lemma generateBudgetPlan_never_warns:
  "\<forall>i \<in> set (insights (fst (generateBudgetPlan e uid mon base incomes debts goals rules w))).
     insight_type i \<noteq> warning"
  by (simp add: generateBudgetPlan_insights)

text \<open>
  C1. With an income of 10000 and 5% for savings under a floor of 10%, the allocation
  from the percentage (500) is below the floor (1000), and the plan has no insight at
  all, so no warning for the SAVINGS bucket.
\<close>

theorem generateBudgetPlan_low_savings_no_warning:
  "percentSavingsOf lowSavingsRules [salary] = 500
   \<and> minSavingsOf lowSavingsRules [salary] = 1000
   \<and> insights (fst (generateBudgetPlan env0 ''u1'' ''2026-01'' ''AED'' [salary] [] []
        lowSavingsRules world0)) = []"
  by (simp add: generateBudgetPlan_insights percentSavingsOf_def minSavingsOf_def
      totalIncomeBaseOf_def debtPlannedOf_def salary_def aed_def lowSavingsRules_def
      DEFAULT_BUDGET_RULES_def)

section \<open>Debt payments\<close>

lemma allocateDebtPayments_later:
  "debtSnapshots \<noteq> [] \<Longrightarrow>
   filter (\<lambda>s. \<not> isMinimumPayment s)
     (fst (allocateDebtPayments e base ds r debtSnapshots cache)) =
   filter (\<lambda>s. \<not> isMinimumPayment s) debtSnapshots"
  by (induction ds arbitrary: r debtSnapshots cache) (simp_all add: Let_def split_def)

lemma allocateDebtPayments_at_most_one:
  "length (filter (\<lambda>s. \<not> isMinimumPayment s)
     (fst (allocateDebtPayments e base ds r [] cache))) \<le> 1"
  by (cases ds) (simp_all add: Let_def split_def allocateDebtPayments_later)

text \<open>
  C5. For every call of \<open>generateBudgetPlan\<close>, at most one debt snapshot of the plan has
  isMinimumPayment = False.
\<close>

theorem generateBudgetPlan_at_most_one_extra:
  "length (filter (\<lambda>s. \<not> isMinimumPayment s)
     (debtsSnapshot (fst (generateBudgetPlan e uid mon base incomes debts goals rules w)))) \<le> 1"
  unfolding generateBudgetPlan_debtsSnapshot by (rule allocateDebtPayments_at_most_one)

lemma allocateDebtPayments_debtId:
  "map debtId (fst (allocateDebtPayments e base ds r debtSnapshots cache)) =
   map debtId debtSnapshots @ map debt_id ds"
  by (induction ds arbitrary: r debtSnapshots cache) (simp_all add: Let_def split_def)

lemma allocateDebtPayments_outstandingPrincipal:
  "map outstandingPrincipal (fst (allocateDebtPayments e base ds r debtSnapshots cache)) =
   map outstandingPrincipal debtSnapshots @ map debt_outstandingPrincipal ds"
  by (induction ds arbitrary: r debtSnapshots cache) (simp_all add: Let_def split_def)

lemma allocateDebtPayments_name:
  "map snapshot_name (fst (allocateDebtPayments e base ds r debtSnapshots cache)) =
   map snapshot_name debtSnapshots @ map debt_name ds"
  by (induction ds arbitrary: r debtSnapshots cache) (simp_all add: Let_def split_def)

lemma sortedDebts_mset: "mset (sortedDebts rules debts) = mset debts"
  by (simp add: sortedDebts_def)

lemma sortedDebts_snowball:
  "debtStrategy rules = snowball \<Longrightarrow>
   sorted (map (\<lambda>d. baseAmount (debt_outstandingPrincipal d)) (sortedDebts rules debts))"
  by (simp add: sortedDebts_def)

lemma sortedDebts_avalanche:
  "debtStrategy rules = avalanche \<Longrightarrow>
   sorted_wrt (\<lambda>a b. interestRateAnnual a \<ge> interestRateAnnual b) (sortedDebts rules debts)"
proof -
  assume "debtStrategy rules = avalanche"
  then have "sorted (map (\<lambda>d. - interestRateAnnual d) (sortedDebts rules debts))"
    by (simp add: sortedDebts_def)
  then show ?thesis
    by (simp add: sorted_map sorted_wrt_iff_nth_less)
qed

text \<open>
  C3. With an income of 10000, the default rules and one debt whose outstanding principal
  is 50 and whose minimum payment is 100, the debt budget is 1500, above the minimum, so
  line 137 allocates min(1500, 50) = 50: less than the minimum payment.
\<close>

theorem generateBudgetPlan_first_debt_below_minimum:
  "map (\<lambda>s. (baseAmount (allocatedPayment s), isMinimumPayment s))
     (debtsSnapshot (fst (generateBudgetPlan env0 ''u1'' ''2026-01'' ''AED'' [salary] [card] []
        DEFAULT_BUDGET_RULES world0))) = [(50, False)]
   \<and> baseAmount (minMonthlyPayment card) = 100"
  by (simp add: generateBudgetPlan_debtsSnapshot sortedDebts_def debtPlannedOf_def
      totalIncomeBaseOf_def Let_def split_def createMoney_fst createMoney_snd
      fetchFxRate_same_currency freshCached_def world0_def salary_def card_def aed_def
      DEFAULT_BUDGET_RULES_def)

text \<open>
  C4. For every call of \<open>generateBudgetPlan\<close>, the debt snapshots are made, one for one
  and in order, from the list \<open>sortedDebts\<close>, a rearrangement of the debts; under avalanche
  the debt of an earlier snapshot has an interest rate at least that of a later one, and
  under snowball an earlier snapshot has an outstanding principal at most that of a later
  one.
\<close>

theorem generateBudgetPlan_debt_order:
  "mset (sortedDebts rules debts) = mset debts
   \<and> map debtId (debtsSnapshot (fst (generateBudgetPlan e uid mon base incomes debts goals rules w)))
       = map debt_id (sortedDebts rules debts)
   \<and> map snapshot_name (debtsSnapshot (fst (generateBudgetPlan e uid mon base incomes debts goals rules w)))
       = map debt_name (sortedDebts rules debts)
   \<and> map outstandingPrincipal
         (debtsSnapshot (fst (generateBudgetPlan e uid mon base incomes debts goals rules w)))
       = map debt_outstandingPrincipal (sortedDebts rules debts)
   \<and> (debtStrategy rules = avalanche \<longrightarrow>
        sorted_wrt (\<lambda>a b. interestRateAnnual a \<ge> interestRateAnnual b) (sortedDebts rules debts))
   \<and> (debtStrategy rules = snowball \<longrightarrow>
        sorted_wrt (\<lambda>a b. baseAmount (outstandingPrincipal a) \<le> baseAmount (outstandingPrincipal b))
          (debtsSnapshot (fst (generateBudgetPlan e uid mon base incomes debts goals rules w))))"
proof -
  let ?snaps = "debtsSnapshot (fst (generateBudgetPlan e uid mon base incomes debts goals rules w))"
  have principal: "map outstandingPrincipal ?snaps =
      map debt_outstandingPrincipal (sortedDebts rules debts)"
    by (simp add: generateBudgetPlan_debtsSnapshot allocateDebtPayments_outstandingPrincipal)
  have snow: "sorted_wrt (\<lambda>a b. baseAmount (outstandingPrincipal a) \<le> baseAmount (outstandingPrincipal b))
      ?snaps" if "debtStrategy rules = snowball"
  proof -
    have "sorted (map baseAmount (map debt_outstandingPrincipal (sortedDebts rules debts)))"
      using sortedDebts_snowball [OF that] by (simp add: comp_def)
    then have "sorted (map baseAmount (map outstandingPrincipal ?snaps))"
      by (simp only: principal)
    then show ?thesis
      by (simp add: sorted_map comp_def)
  qed
  show ?thesis
    using principal snow
    by (simp add: sortedDebts_mset sortedDebts_avalanche generateBudgetPlan_debtsSnapshot
        allocateDebtPayments_debtId allocateDebtPayments_name)
qed

theorem generateBudgetPlan_debt_order_witness:
  "map debtId (debtsSnapshot (fst (generateBudgetPlan env0 ''u1'' ''2026-01'' ''AED'' [salary]
       [loan, card] [] DEFAULT_BUDGET_RULES world0))) = [''d1'', ''d2'']
   \<and> sorted_wrt (\<lambda>a b. interestRateAnnual a \<ge> interestRateAnnual b)
       (sortedDebts DEFAULT_BUDGET_RULES [loan, card])"
  using generateBudgetPlan_debt_order [where e = env0 and uid = "''u1''" and mon = "''2026-01''"
      and base = "''AED''" and incomes = "[salary]" and debts = "[loan, card]" and goals = "[]"
      and rules = DEFAULT_BUDGET_RULES and w = world0]
  by (simp add: DEFAULT_BUDGET_RULES_def sortedDebts_def loan_def card_def)

section \<open>generateInsights changes no stored state\<close>

text \<open>Pushing an insight draws one id and leaves the rest of the state alone.\<close>

lemma pushInsight_world:
  "(snd (pushInsight e ty msg b c s))\<lparr>nextUuid := k\<rparr> = (snd s)\<lparr>nextUuid := k\<rparr>"
  by (simp add: pushInsight_def uuidv4_def split_def Let_def)

lemma categoryInsights_world:
  "(snd (categoryInsights e base bt cs s))\<lparr>nextUuid := k\<rparr> = (snd s)\<lparr>nextUuid := k\<rparr>"
proof (induction cs arbitrary: s)
  case Nil
  show ?case by simp
next
  case (Cons c cs)
  then show ?case by (cases c) (simp add: pushInsight_world)
qed

lemma bucketInsights_world:
  "(snd (bucketInsights e plan bt s))\<lparr>nextUuid := k\<rparr> = (snd s)\<lparr>nextUuid := k\<rparr>"
  by (simp add: bucketInsights_def Let_def categoryInsights_world pushInsight_world)

lemma goalInsights_world:
  "(snd (goalInsights e gs s))\<lparr>nextUuid := k\<rparr> = (snd s)\<lparr>nextUuid := k\<rparr>"
  by (induction gs arbitrary: s) (simp_all add: pushInsight_world)

lemma generateInsights_world:
  "(snd (generateInsights e plan w))\<lparr>nextUuid := k\<rparr> = w\<lparr>nextUuid := k\<rparr>"
  by (simp add: generateInsights_def Let_def goalInsights_world bucketInsights_world
      pushInsight_world split: option.split)

text \<open>
  C9. For every plan and every state, \<open>generateInsights\<close> returns a state that differs
  from the one it was given at most in the id source of \<^verbatim>\<open>uuidv4()\<close>: the plan store
  (so every stored plan, with its buckets, categories, snapshots, insight list and
  timestamps), the transaction store and the rate cache are the same, and the computed
  insights are only returned.
\<close>

theorem generateInsights_frame:
  "(snd (generateInsights e plan w))\<lparr>nextUuid := nextUuid w\<rparr> = w
   \<and> budgetPlans (snd (generateInsights e plan w)) = budgetPlans w
   \<and> transactions (snd (generateInsights e plan w)) = transactions w
   \<and> fxRateCache (snd (generateInsights e plan w)) = fxRateCache w
   \<and> getBudgetPlan uid mon (snd (generateInsights e plan w)) = getBudgetPlan uid mon w
   \<and> getInsights uid mon (snd (generateInsights e plan w)) = getInsights uid mon w"
proof -
  let ?w' = "snd (generateInsights e plan w)"
  have eq: "?w'\<lparr>nextUuid := nextUuid w\<rparr> = w"
    by (simp add: generateInsights_world)
  have "budgetPlans ?w' = budgetPlans (?w'\<lparr>nextUuid := nextUuid w\<rparr>)"
       "transactions ?w' = transactions (?w'\<lparr>nextUuid := nextUuid w\<rparr>)"
       "fxRateCache ?w' = fxRateCache (?w'\<lparr>nextUuid := nextUuid w\<rparr>)"
    by simp_all
  then have stores: "budgetPlans ?w' = budgetPlans w" "transactions ?w' = transactions w"
      "fxRateCache ?w' = fxRateCache w"
    by (simp_all only: eq)
  show ?thesis
    using eq stores by (simp add: getBudgetPlan_def getInsights_def)
qed

section \<open>Logging transactions\<close>

lemma updateBucket_categories: "categories (updateBucket money b) = categories b"
  by (simp add: updateBucket_def Let_def)

lemma updateBucket_spent:
  "baseAmount (spent (updateBucket money b)) = baseAmount (spent b) + baseAmount money"
  by (simp add: updateBucket_def Let_def)

lemma logTransaction_existing:
  assumes "budgetPlans w (getPlanKey uid mon) = Some p"
  shows "budgetPlans (snd (logTransaction e uid mon amt cur base category bucket descr dt tgs w))
           (getPlanKey uid mon) =
         Some (p\<lparr>buckets := (buckets p)(bucket :=
                     (updateBucket (fst (createMoney e amt cur base (fxRateCache w))) (buckets p bucket))
                       \<lparr>categories := updateCategory (fst (createMoney e amt cur base (fxRateCache w)))
                                        category (categories (buckets p bucket))\<rparr>),
                  insights := insights p @
                     snd (snd (fst (logTransaction e uid mon amt cur base category bucket descr dt tgs w))),
                  updatedAt := now e\<rparr>)"
  using assms
  by (simp add: logTransaction_def Let_def split_def updateBucket_categories)

lemma logTransaction_existing_cache:
  assumes "budgetPlans w (getPlanKey uid mon) = Some p"
  shows "fxRateCache (snd (logTransaction e uid mon amt cur base category bucket descr dt tgs w)) =
         snd (createMoney e amt cur base (fxRateCache w))"
  using assms
  by (simp add: logTransaction_def Let_def split_def pushInsight_def uuidv4_def)

lemma generateBudgetPlan_no_debts_cache:
  "fxRateCache (snd (generateBudgetPlan e uid mon base incomes [] goals rules w)) =
     snd (createMoney e (totalIncomeBaseOf incomes) base base (fxRateCache w))"
  by (simp add: generateBudgetPlan_def Let_def split_def pushInsight_def uuidv4_def
      totalIncomeBaseOf_def sortedDebts_def)

lemma generateBudgetPlan_bucket_spent:
  "baseAmount (spent (buckets (fst (generateBudgetPlan e uid mon base incomes debts goals rules w)) bt)) = 0"
  by (cases bt) (simp_all add: generateBudgetPlan_def Let_def split_def createBucket_def)

lemma updateCategory_new:
  "map_of cats c = None \<Longrightarrow> c \<notin> set objectPrototypeMembers \<Longrightarrow>
   map_of (updateCategory money c cats) c =
     Some \<lparr>cat_name = c, cat_planned = 0, cat_spent = baseAmount money,
           cat_remaining = - baseAmount money, cat_status = OVER\<rparr>"
  by (simp add: updateCategory_def update_conv')

lemma updateCategory_existing:
  "map_of cats c = Some cat \<Longrightarrow>
   map_of (updateCategory money c cats) c =
     Some (cat\<lparr>cat_spent := cat_spent cat + baseAmount money,
               cat_remaining := cat_planned cat - (cat_spent cat + baseAmount money),
               cat_status := calculateStatus (cat_spent cat + baseAmount money) (cat_planned cat)\<rparr>)"
  by (simp add: updateCategory_def update_conv' Let_def)

lemma updateCategory_inherited:
  "map_of cats c = None \<Longrightarrow> c \<in> set objectPrototypeMembers \<Longrightarrow>
   updateCategory money c cats = cats"
  by (simp add: updateCategory_def)

text \<open>
  Once a category with nothing planned has an entry, every further transaction on it
  sets its status to UNDER, whatever it has spent.
\<close>

lemma updateCategory_unplanned_again:
  "map_of cats c = Some cat \<Longrightarrow> cat_planned cat = 0 \<Longrightarrow>
   map_option cat_status (map_of (updateCategory money c cats) c) = Some UNDER"
  by (simp add: updateCategory_existing calculateStatus_def)

lemma generateBudgetPlan_categories:
  "categories (buckets (fst (generateBudgetPlan e uid mon base incomes debts goals rules w)) bt) =
   categories (createBucket e bt
     (baseAmount (planned (buckets (fst (generateBudgetPlan e uid mon base incomes debts goals rules w)) bt)))
     base (DEFAULT_CATEGORIES bt))"
  by (cases bt) (simp_all add: generateBudgetPlan_def Let_def split_def createBucket_def)

text \<open>The categories of a new bucket: the names given, nothing spent.\<close>

lemma fold_update_keys:
  "fst ` set (fold (\<lambda>name cs. AList.update name (f name) cs) names acc) =
   fst ` set acc \<union> set names"
proof (induction names arbitrary: acc)
  case Nil
  show ?case by simp
next
  case (Cons n names)
  then show ?case by (auto simp: dom_update)
qed

lemma set_update_subset: "set (AList.update k v al) \<subseteq> insert (k, v) (set al)"
  by (induction al) auto

lemma sum_list_zeros: "\<forall>x \<in> set xs. x = (0::real) \<Longrightarrow> sum_list xs = 0"
  by (induction xs) simp_all

lemma fold_update_values:
  assumes "\<forall>(k, c) \<in> set acc. P c" and "\<forall>n. P (f n)"
  shows "\<forall>(k, c) \<in> set (fold (\<lambda>name cs. AList.update name (f name) cs) names acc). P c"
  using assms(1)
proof (induction names arbitrary: acc)
  case Nil
  then show ?case by simp
next
  case (Cons n names)
  have "\<forall>(k, c) \<in> set (AList.update n (f n) acc). P c"
    using Cons.prems assms(2) set_update_subset [of n "f n" acc] by auto
  then show ?case using Cons.IH by simp
qed

lemma createBucket_names:
  "fst ` set (categories (createBucket e ty pl base names)) = set names"
  by (simp add: createBucket_def Let_def fold_update_keys)

lemma createBucket_categoriesSpent:
  "categoriesSpent (createBucket e ty pl base names) = 0"
proof -
  have "\<forall>(k, c) \<in> set (categories (createBucket e ty pl base names)). cat_spent c = 0"
    unfolding createBucket_def Let_def
    by (simp, rule fold_update_values) simp_all
  then have "\<forall>x \<in> set (map (\<lambda>(name, cat). cat_spent cat)
      (categories (createBucket e ty pl base names))). x = 0"
    by auto
  then show ?thesis
    unfolding categoriesSpent_def by (rule sum_list_zeros)
qed

lemma generateBudgetPlan_category_names:
  "fst ` set (categories (buckets (fst (generateBudgetPlan e uid mon base incomes debts goals rules w)) bt))
     = set (DEFAULT_CATEGORIES bt)"
  by (simp add: generateBudgetPlan_categories createBucket_names)

lemma generateBudgetPlan_categoriesSpent:
  "categoriesSpent (buckets (fst (generateBudgetPlan e uid mon base incomes debts goals rules w)) bt) = 0"
  using createBucket_categoriesSpent
  by (simp add: categoriesSpent_def generateBudgetPlan_categories)

text \<open>The state after the plan of the run: the stored plan and the cached rate.\<close>

lemma afterPlan_stored:
  "budgetPlans afterPlan (getPlanKey ''u1'' ''2026-01'') =
     Some (fst (generateBudgetPlan env0 ''u1'' ''2026-01'' ''AED'' [salary] [] []
                  DEFAULT_BUDGET_RULES world0))"
  by (simp add: afterPlan_def generateBudgetPlan_stored)

lemma afterPlan_fresh:
  "freshCached env0 (fxRateCache afterPlan (getCacheKey ''AED'' ''AED'')) =
     Some \<lparr>fx_id = (''AED'', ''AED'', now env0), fx_from = ''AED'', fx_to = ''AED'',
           rate = 1, timestamp = now env0\<rparr>"
  by (simp add: afterPlan_def generateBudgetPlan_no_debts_cache createMoney_snd
      fetchFxRate_same_currency freshCached_def world0_def)

lemma afterPlan_money:
  "fst (createMoney env0 amt ''AED'' ''AED'' (fxRateCache afterPlan)) =
     \<lparr>amount = amt, currency = ''AED'', baseAmount = amt, fxRate = 1, fxTimestamp = now env0\<rparr>"
  using createMoney_same_fresh [where cache = "fxRateCache afterPlan", OF afterPlan_fresh]
  by simp

lemma afterPlan_pets:
  "map_of (categories (buckets (fst (generateBudgetPlan env0 ''u1'' ''2026-01'' ''AED'' [salary] [] []
      DEFAULT_BUDGET_RULES world0)) NEEDS)) ''pets'' = None"
  by (simp add: map_of_eq_None_iff generateBudgetPlan_category_names)

lemma afterPlan_constructor:
  "map_of (categories (buckets (fst (generateBudgetPlan env0 ''u1'' ''2026-01'' ''AED'' [salary] [] []
      DEFAULT_BUDGET_RULES world0)) NEEDS)) ''constructor'' = None"
  by (simp add: map_of_eq_None_iff generateBudgetPlan_category_names)

text \<open>
  C2. After a plan from a salary of 10000 and the default rules, a first expense of 100
  in the new category pets of NEEDS creates it with nothing planned and status OVER, and a
  second expense of 50 in the same category leaves it with planned 0, spent 150 and
  status UNDER: the update branch (lines 407-411) takes the status from
  \<open>calculateStatus\<close>, which is UNDER for every category with nothing planned.
\<close>

theorem logTransaction_unplanned_category_under:
  "map_option (\<lambda>q. map_of (categories (buckets q NEEDS)) ''pets'')
     (getBudgetPlan ''u1'' ''2026-01'' afterFirstExpense) =
     Some (Some \<lparr>cat_name = ''pets'', cat_planned = 0, cat_spent = 100,
                 cat_remaining = - 100, cat_status = OVER\<rparr>)
   \<and> map_option (\<lambda>q. map_of (categories (buckets q NEEDS)) ''pets'')
     (getBudgetPlan ''u1'' ''2026-01'' afterSecondExpense) =
     Some (Some \<lparr>cat_name = ''pets'', cat_planned = 0, cat_spent = 150,
                 cat_remaining = - 150, cat_status = UNDER\<rparr>)"
proof -
  let ?K = "getPlanKey ''u1'' ''2026-01''"
  have first: "map_option (\<lambda>q. map_of (categories (buckets q NEEDS)) ''pets'')
      (budgetPlans afterFirstExpense ?K) =
      Some (Some \<lparr>cat_name = ''pets'', cat_planned = 0, cat_spent = 100,
                  cat_remaining = - 100, cat_status = OVER\<rparr>)"
    unfolding afterFirstExpense_def
    by (simp add: logTransaction_existing [OF afterPlan_stored] afterPlan_money
        updateCategory_new [OF afterPlan_pets] objectPrototypeMembers_def)
  then obtain p1 where p1: "budgetPlans afterFirstExpense ?K = Some p1"
    and cat1: "map_of (categories (buckets p1 NEEDS)) ''pets'' =
      Some \<lparr>cat_name = ''pets'', cat_planned = 0, cat_spent = 100,
            cat_remaining = - 100, cat_status = OVER\<rparr>"
    by auto
  have "fxRateCache afterFirstExpense = fxRateCache afterPlan"
    unfolding afterFirstExpense_def
    using createMoney_same_fresh [where cache = "fxRateCache afterPlan", OF afterPlan_fresh]
    by (simp add: logTransaction_existing_cache [OF afterPlan_stored])
  then have money2: "fst (createMoney env0 50 ''AED'' ''AED'' (fxRateCache afterFirstExpense)) =
      \<lparr>amount = 50, currency = ''AED'', baseAmount = 50, fxRate = 1, fxTimestamp = now env0\<rparr>"
    by (simp add: afterPlan_money)
  have second: "map_option (\<lambda>q. map_of (categories (buckets q NEEDS)) ''pets'')
      (budgetPlans afterSecondExpense ?K) =
      Some (Some \<lparr>cat_name = ''pets'', cat_planned = 0, cat_spent = 150,
                  cat_remaining = - 150, cat_status = UNDER\<rparr>)"
    unfolding afterSecondExpense_def
    by (simp add: logTransaction_existing [OF p1] money2 updateCategory_existing [OF cat1]
        calculateStatus_def)
  from first second show ?thesis
    by (simp add: getBudgetPlan_def)
qed

text \<open>
  C10. After the same plan, one expense of 100 in NEEDS under the category name
  constructor adds 100 to the spent amount of the bucket and creates no category: the
  lookup of line 407 finds the member every object literal inherits, so the creating
  branch does not run. The bucket has spent 100 and its categories have spent 0.
\<close>

theorem logTransaction_inherited_name_drift:
  "map_option (\<lambda>q. (baseAmount (spent (buckets q NEEDS)), categoriesSpent (buckets q NEEDS)))
     (getBudgetPlan ''u1'' ''2026-01'' afterConstructorExpense) = Some (100, 0)"
  unfolding afterConstructorExpense_def getBudgetPlan_def
  by (simp add: logTransaction_existing [OF afterPlan_stored] afterPlan_money
      updateCategory_inherited [OF afterPlan_constructor] objectPrototypeMembers_def
      updateBucket_spent generateBudgetPlan_bucket_spent categoriesSpent_def
      generateBudgetPlan_categoriesSpent [unfolded categoriesSpent_def])

section \<open>Bucket totals and category totals\<close>

lemma sum_update_new:
  "map_of al k = None \<Longrightarrow>
   sum_list (map (\<lambda>(n, c). g c) (AList.update k v al)) =
   sum_list (map (\<lambda>(n, c). g c) al) + (g v :: real)"
  by (induction al) (auto split: if_splits)

lemma sum_update_existing:
  "distinct (map fst al) \<Longrightarrow> map_of al k = Some old \<Longrightarrow>
   sum_list (map (\<lambda>(n, c). g c) (AList.update k v al)) =
   sum_list (map (\<lambda>(n, c). g c) al) - g old + (g v :: real)"
proof (induction al)
  case Nil
  then show ?case by simp
next
  case (Cons a al)
  show ?case
  proof (cases "fst a = k")
    case True
    with Cons.prems show ?thesis by (cases a) auto
  next
    case False
    with Cons show ?thesis by (cases a) auto
  qed
qed

lemma updateCategory_distinct:
  "distinct (map fst cats) \<Longrightarrow> distinct (map fst (updateCategory money c cats))"
  by (simp add: updateCategory_def distinct_update Let_def split: option.split)

lemma updateCategory_spent:
  assumes "distinct (map fst cats)"
    and "c \<notin> set objectPrototypeMembers \<or> map_of cats c \<noteq> None"
  shows "sum_list (map (\<lambda>(n, cat). cat_spent cat) (updateCategory money c cats)) =
         sum_list (map (\<lambda>(n, cat). cat_spent cat) cats) + baseAmount money"
proof (cases "map_of cats c")
  case None
  with assms(2) show ?thesis
    by (simp add: updateCategory_def sum_update_new [where g = cat_spent])
next
  case (Some cat)
  with assms(1) show ?thesis
    by (simp add: updateCategory_def Let_def sum_update_existing [where g = cat_spent])
qed

lemma bucketInStep_logged:
  assumes "bucketInStep b"
    and "c \<notin> set objectPrototypeMembers \<or> map_of (categories b) c \<noteq> None"
  shows "bucketInStep ((updateBucket money b)
           \<lparr>categories := updateCategory money c (categories (updateBucket money b))\<rparr>)"
  using assms
  by (simp add: bucketInStep_def categoriesSpent_def updateBucket_spent updateBucket_categories
      updateCategory_spent updateCategory_distinct)

lemma fold_update_distinct:
  "distinct (map fst acc) \<Longrightarrow>
   distinct (map fst (fold (\<lambda>name cs. AList.update name (f name) cs) names acc))"
  by (induction names arbitrary: acc) (simp_all add: distinct_update)

lemma createBucket_inStep: "bucketInStep (createBucket e ty pl base names)"
proof -
  have "distinct (map fst (categories (createBucket e ty pl base names)))"
    by (simp add: createBucket_def Let_def fold_update_distinct)
  moreover have "baseAmount (spent (createBucket e ty pl base names)) = 0"
    by (simp add: createBucket_def Let_def)
  ultimately show ?thesis
    by (simp add: bucketInStep_def createBucket_categoriesSpent)
qed

lemma generateBudgetPlan_inStep:
  "bucketInStep (buckets (fst (generateBudgetPlan e uid mon base incomes debts goals rules w)) bt)"
  using createBucket_inStep [of e bt _ base "DEFAULT_CATEGORIES bt"]
  by (simp add: bucketInStep_def categoriesSpent_def generateBudgetPlan_categories
      generateBudgetPlan_bucket_spent createBucket_def Let_def)

lemma logTransaction_stored:
  "budgetPlans (snd (logTransaction e uid mon amt cur base category bucket descr dt tgs w)) =
     (budgetPlans w)(getPlanKey uid mon \<mapsto>
        fst (snd (fst (logTransaction e uid mon amt cur base category bucket descr dt tgs w))))"
  by (cases "budgetPlans w (getPlanKey uid mon)")
     (simp_all add: logTransaction_def Let_def split_def generateBudgetPlan_stored
        pushInsight_def uuidv4_def)

lemma logTransaction_updatedPlan_buckets:
  "\<exists>money. buckets (fst (snd (fst (logTransaction e uid mon amt cur base category bucket descr dt tgs w)))) =
     (buckets (case budgetPlans w (getPlanKey uid mon) of
                 Some p \<Rightarrow> p
               | None \<Rightarrow> fst (generateBudgetPlan e uid mon base [] [] [] DEFAULT_BUDGET_RULES w)))
       (bucket :=
          (updateBucket money
             (buckets (case budgetPlans w (getPlanKey uid mon) of
                         Some p \<Rightarrow> p
                       | None \<Rightarrow> fst (generateBudgetPlan e uid mon base [] [] []
                                        DEFAULT_BUDGET_RULES w)) bucket))
          \<lparr>categories := updateCategory money category
             (categories (updateBucket money
               (buckets (case budgetPlans w (getPlanKey uid mon) of
                           Some p \<Rightarrow> p
                         | None \<Rightarrow> fst (generateBudgetPlan e uid mon base [] [] []
                                          DEFAULT_BUDGET_RULES w)) bucket)))\<rparr>)"
  by (cases "budgetPlans w (getPlanKey uid mon)")
     (auto simp: logTransaction_def Let_def split_def)

text \<open>
  In exact arithmetic, as long as no logged category name is one of the inherited member
  names, every bucket of every stored plan of a reachable state is in step. (In the
  doubles of the source the two running sums are rounded separately.)
\<close>

lemma reachable_inStep:
  assumes "reachable (\<lambda>c. c \<notin> set objectPrototypeMembers) w"
    and "budgetPlans w k = Some p"
  shows "bucketInStep (buckets p bt)"
  using assms
proof (induction arbitrary: k p bt rule: reachable.induct)
  case (start w)
  then show ?case by simp
next
  case (generate w e uid mon base incomes debts goals rules)
  then show ?case
    by (auto simp: generateBudgetPlan_stored generateBudgetPlan_inStep split: if_splits)
next
  case (log w category e uid mon amt cur base bucket descr dt tgs)
  let ?p0 = "case budgetPlans w (getPlanKey uid mon) of
               Some p \<Rightarrow> p
             | None \<Rightarrow> fst (generateBudgetPlan e uid mon base [] [] [] DEFAULT_BUDGET_RULES w)"
  have p0: "bucketInStep (buckets ?p0 b)" for b
    using log.IH by (auto simp: generateBudgetPlan_inStep split: option.split)
  show ?case
  proof (cases "k = getPlanKey uid mon")
    case False
    with log.prems log.IH show ?thesis
      by (simp add: logTransaction_stored)
  next
    case True
    with log.prems have p: "p = fst (snd (fst (logTransaction e uid mon amt cur base category
        bucket descr dt tgs w)))"
      by (simp add: logTransaction_stored)
    obtain money where "buckets p = (buckets ?p0)(bucket :=
        (updateBucket money (buckets ?p0 bucket))
          \<lparr>categories := updateCategory money category
             (categories (updateBucket money (buckets ?p0 bucket)))\<rparr>)"
      using logTransaction_updatedPlan_buckets [of e uid mon amt cur base category bucket descr dt tgs w]
      unfolding p by blast
    then show ?thesis
      using p0 [of bt] bucketInStep_logged [OF p0 [of bucket], of category money] log.hyps(2)
      by (cases "bt = bucket") simp_all
  qed
qed

end
